theory Spec2Isabelle
  imports Main
begin

section \<open>JavaScript values, objects and the platform primitives the client calls\<close>

text \<open>
  The client (\<^verbatim>\<open>src/index.ts\<close>, class \<^verbatim>\<open>Kagi\<close>) builds parameter objects by object
  spread, turns them into a query string or a JSON text, and hands a URL and a request
  descriptor to \<^verbatim>\<open>request\<close>. The values of parameter objects are the primitive values
  of the option interfaces: strings, numbers and booleans, and \<^verbatim>\<open>null\<close> and
  \<^verbatim>\<open>undefined\<close>, which the code tests for. Numbers are kept abstract (type \<open>'n\<close>);
  how a number prints is a parameter of the model. Strings are modelled by their UTF-8
  bytes.
\<close>

datatype 'n jsval = JUndefined | JNull | JBool bool | JNum 'n | JStr string

text \<open>
  An object is the list of its own properties in creation order. The keys are the field
  names of the option interfaces (none of them is an array index, so the order of
  \<^verbatim>\<open>Object.entries\<close> is the creation order). Where a list is read as an object and
  names a key twice, the later entry is a later write of the same property.
\<close>

type_synonym 'n obj = "(string \<times> 'n jsval) list"

text \<open>Defining one property: an existing key keeps its place and takes the new value,
  a new key goes to the end.\<close>

fun set_prop :: "string \<Rightarrow> 'v \<Rightarrow> (string \<times> 'v) list \<Rightarrow> (string \<times> 'v) list" where
  "set_prop k v [] = [(k, v)]"
| "set_prop k v ((k', v') # ps) =
     (if k' = k then (k, v) # ps else (k', v') # set_prop k v ps)"

text \<open>\<^verbatim>\<open>{...target, ...src}\<close>: the properties of \<open>src\<close> are copied onto the object
  built so far, in order.\<close>

fun spread :: "(string \<times> 'v) list \<Rightarrow> (string \<times> 'v) list \<Rightarrow> (string \<times> 'v) list" where
  "spread target [] = target"
| "spread target ((k, v) # ps) = spread (set_prop k v target) ps"

text \<open>Spreading an optional object: \<^verbatim>\<open>{...undefined}\<close> copies nothing.\<close>

fun spread_opt :: "(string \<times> 'v) list \<Rightarrow> (string \<times> 'v) list option \<Rightarrow> (string \<times> 'v) list" where
  "spread_opt target None = target"
| "spread_opt target (Some src) = spread target src"

text \<open>Reading a property: the value of the last definition of the key.\<close>

fun get_prop :: "(string \<times> 'v) list \<Rightarrow> string \<Rightarrow> 'v option" where
  "get_prop [] k = None"
| "get_prop ((k', v) # ps) k =
     (case get_prop ps k of
        Some w \<Rightarrow> Some w
      | None \<Rightarrow> if k' = k then Some v else None)"

text \<open>Reading a property of an optional object; there is none where the object is
  missing.\<close>

fun opt_prop :: "(string \<times> 'v) list option \<Rightarrow> string \<Rightarrow> 'v option" where
  "opt_prop None k = None"
| "opt_prop (Some ps) k = get_prop ps k"

text \<open>\<^verbatim>\<open>Array.prototype.join\<close> on strings.\<close>

fun join :: "string \<Rightarrow> string list \<Rightarrow> string" where
  "join sep [] = []"
| "join sep [x] = x"
| "join sep (x # y # ys) = x @ sep @ join sep (y # ys)"

text \<open>
  The environment of a client: the one constant of \<^verbatim>\<open>./request\<close> whose value the
  specification does not give, and the platform primitives that are not modelled in
  full.
\<close>

record 'n env =
  KAGI_BASE_API_URL :: string
  url_parses :: "string \<Rightarrow> bool"  \<comment> \<open>\<^verbatim>\<open>new URL(input)\<close> returns instead of throwing\<close>
  num_String :: "'n \<Rightarrow> string"  \<comment> \<open>\<^verbatim>\<open>String(v)\<close> for a number\<close>
  num_JSON :: "'n \<Rightarrow> string"  \<comment> \<open>\<^verbatim>\<open>JSON.stringify(v)\<close> for a number\<close>

text \<open>\<^verbatim>\<open>String(v)\<close>.\<close>

fun String :: "'n env \<Rightarrow> 'n jsval \<Rightarrow> string" where
  "String E JUndefined = ''undefined''"
| "String E JNull = ''null''"
| "String E (JBool b) = (if b then ''true'' else ''false'')"
| "String E (JNum n) = num_String E n"
| "String E (JStr s) = s"

text \<open>The filter predicate \<^verbatim>\<open>([_, v]) => v != null\<close>: loose inequality with
  \<^verbatim>\<open>null\<close> is false for \<^verbatim>\<open>null\<close> and \<^verbatim>\<open>undefined\<close> only.\<close>

fun not_nullish :: "'n jsval \<Rightarrow> bool" where
  "not_nullish JUndefined = False"
| "not_nullish JNull = False"
| "not_nullish _ = True"

text \<open>\<^verbatim>\<open>Object.entries(o).filter(([_, v]) => v != null).map(([k, v]) => [k, String(v)])\<close>\<close>

definition query_entries :: "'n env \<Rightarrow> 'n obj \<Rightarrow> (string \<times> string) list" where
  "query_entries E ps =
     map (\<lambda>(k, v). (k, String E v)) (filter (\<lambda>(k, v). not_nullish v) ps)"

subsection \<open>\<^verbatim>\<open>URLSearchParams\<close>: the application/x-www-form-urlencoded serializer\<close>

definition hex_upper :: "nat \<Rightarrow> char" where
  "hex_upper d = ''0123456789ABCDEF'' ! (d mod 16)"

definition hex_lower :: "nat \<Rightarrow> char" where
  "hex_lower d = ''0123456789abcdef'' ! (d mod 16)"

definition is_alnum :: "char \<Rightarrow> bool" where
  "is_alnum c = (let n = (of_char c :: nat) in
     (48 \<le> n \<and> n \<le> 57) \<or> (65 \<le> n \<and> n \<le> 90) \<or> (97 \<le> n \<and> n \<le> 122))"

text \<open>One byte: alphanumerics and \<^verbatim>\<open>* - . _\<close> stay, a space becomes \<^verbatim>\<open>+\<close>, every
  other byte is percent-encoded with upper-case digits.\<close>

definition form_byte :: "char \<Rightarrow> string" where
  "form_byte c =
     (if is_alnum c \<or> c \<in> set ''*-._'' then [c]
      else if c = CHR '' '' then ''+''
      else [CHR ''%'', hex_upper (of_char c div 16), hex_upper (of_char c mod 16)])"

definition form_urlencode :: "string \<Rightarrow> string" where
  "form_urlencode s = concat (map form_byte s)"

text \<open>\<^verbatim>\<open>'' + new URLSearchParams(pairs)\<close>: name\<^verbatim>\<open>=\<close>value, joined by \<^verbatim>\<open>&\<close>.\<close>

definition URLSearchParams :: "(string \<times> string) list \<Rightarrow> string" where
  "URLSearchParams pairs =
     join ''&'' (map (\<lambda>(k, v). form_urlencode k @ ''='' @ form_urlencode v) pairs)"

subsection \<open>\<^verbatim>\<open>JSON.stringify\<close> on a parameter object\<close>

definition json_escape :: "char \<Rightarrow> string" where
  "json_escape c =
     (let n = (of_char c :: nat) in
      if n = 34 then [CHR 0x5C, CHR 0x22]
      else if n = 92 then [CHR 0x5C, CHR 0x5C]
      else if n = 8 then [CHR 0x5C, CHR ''b'']
      else if n = 9 then [CHR 0x5C, CHR ''t'']
      else if n = 10 then [CHR 0x5C, CHR ''n'']
      else if n = 12 then [CHR 0x5C, CHR ''f'']
      else if n = 13 then [CHR 0x5C, CHR ''r'']
      else if n < 32 then [CHR 0x5C, CHR ''u'', CHR ''0'', CHR ''0'', hex_lower (n div 16), hex_lower (n mod 16)]
      else [c])"

definition QuoteJSONString :: "string \<Rightarrow> string" where
  "QuoteJSONString s = [CHR 0x22] @ concat (map json_escape s) @ [CHR 0x22]"

text \<open>The text of one property value; \<^verbatim>\<open>undefined\<close> has none.\<close>

fun SerializeJSONProperty :: "'n env \<Rightarrow> 'n jsval \<Rightarrow> string option" where
  "SerializeJSONProperty E JUndefined = None"
| "SerializeJSONProperty E JNull = Some ''null''"
| "SerializeJSONProperty E (JBool b) = Some (if b then ''true'' else ''false'')"
| "SerializeJSONProperty E (JNum n) = Some (num_JSON E n)"
| "SerializeJSONProperty E (JStr s) = Some (QuoteJSONString s)"

text \<open>The members of the object's text, in property order: a property whose value has
  no text is left out.\<close>

fun json_members :: "'n env \<Rightarrow> 'n obj \<Rightarrow> (string \<times> string) list" where
  "json_members E [] = []"
| "json_members E ((k, v) # ps) =
     (case SerializeJSONProperty E v of
        None \<Rightarrow> json_members E ps
      | Some s \<Rightarrow> (k, s) # json_members E ps)"

definition JSON_stringify :: "'n env \<Rightarrow> 'n obj \<Rightarrow> string" where
  "JSON_stringify E ps =
     ''{'' @ join '','' (map (\<lambda>(k, s). QuoteJSONString k @ '':'' @ s) (json_members E ps)) @ ''}''"

section \<open>The constants of \<^verbatim>\<open>./request\<close>\<close>

text \<open>Modelled from the spec: the constants imported from \<^verbatim>\<open>./request\<close>, whose
  source file is missing. The specification gives the default version
  (\<^verbatim>\<open>"v0"\<close>) and the endpoint paths \<^verbatim>\<open>/{version}/summarize\<close>,
  \<^verbatim>\<open>/{version}/search\<close>, \<^verbatim>\<open>/{version}/fastgpt\<close>, \<^verbatim>\<open>/{version}/enrich/web\<close> and
  \<^verbatim>\<open>/{version}/enrich/news\<close>. The base URL is not given and is a field of the
  environment.\<close>

definition KAGI_API_VERSIONS_v0 :: string where
  "KAGI_API_VERSIONS_v0 = ''v0''"

definition KAGI_SUMMARIZER_ENDPOINT :: string where
  "KAGI_SUMMARIZER_ENDPOINT = ''summarize''"

definition KAGI_SEARCH_ENDPOINT :: string where
  "KAGI_SEARCH_ENDPOINT = ''search''"

definition KAGI_FASTGPT_ENDPOINT :: string where
  "KAGI_FASTGPT_ENDPOINT = ''fastgpt''"

definition KAGI_ENRICHMENT_ENDPOINT :: string where
  "KAGI_ENRICHMENT_ENDPOINT = ''enrich''"

definition KAGI_ENRICHMENT_WEB :: string where
  "KAGI_ENRICHMENT_WEB = ''web''"

definition KAGI_ENRICHMENT_NEWS :: string where
  "KAGI_ENRICHMENT_NEWS = ''news''"

section \<open>Settings and the constructor\<close>

text \<open>An optional property of the settings object: missing, present with the value
  \<^verbatim>\<open>undefined\<close> (which the type \<^verbatim>\<open>version?: KagiApiVersion\<close> admits), or present
  with a value.\<close>

datatype 'a optional = Absent | Undefined | Present 'a

record 'n Settings =
  token :: string
  version :: "string optional"
  summarizerDefaults :: "'n obj option"
  searchDefaults :: "'n obj option"
  fastGPTDefaults :: "'n obj option"

text \<open>\<^verbatim>\<open>IntSettings\<close>, the settings the client keeps: \<open>version\<close> is \<open>None\<close> when the
  property holds \<^verbatim>\<open>undefined\<close>.\<close>

record 'n IntSettings =
  token :: string
  version :: "string option"
  summarizerDefaults :: "'n obj option"
  searchDefaults :: "'n obj option"
  fastGPTDefaults :: "'n obj option"

text \<open>The constructor: \<^verbatim>\<open>{...{version: KAGI_API_VERSIONS.v0}, ...settings}\<close>. Every own
  property of \<open>settings\<close> overwrites; the default stays only where \<open>settings\<close> has no
  \<open>version\<close> property.\<close>

definition Kagi :: "'n Settings \<Rightarrow> 'n IntSettings" where
  "Kagi settings =
     \<lparr> IntSettings.token = Settings.token settings,
       IntSettings.version =
         (case Settings.version settings of
            Absent \<Rightarrow> Some KAGI_API_VERSIONS_v0
          | Undefined \<Rightarrow> None
          | Present v \<Rightarrow> Some v),
       IntSettings.summarizerDefaults = Settings.summarizerDefaults settings,
       IntSettings.searchDefaults = Settings.searchDefaults settings,
       IntSettings.fastGPTDefaults = Settings.fastGPTDefaults settings \<rparr>"

text \<open>\<^verbatim>\<open>toUrlStr(...elems)\<close> is \<^verbatim>\<open>elems.join("/")\<close>; \<^verbatim>\<open>join\<close> writes an
  \<^verbatim>\<open>undefined\<close> element as the empty string.\<close>

definition toUrlStr :: "string option list \<Rightarrow> string" where
  "toUrlStr elems = join ''/'' (map (\<lambda>e. case e of None \<Rightarrow> [] | Some s \<Rightarrow> s) elems)"

section \<open>Requests\<close>

record RequestInit =
  "method" :: string
  headers :: "(string \<times> string) list"
  body :: "string option"

subsection \<open>\<^verbatim>\<open>summarize\<close>\<close>

text \<open>The variable \<open>data\<close> after the \<^verbatim>\<open>try\<close>/\<^verbatim>\<open>catch\<close>.\<close>

definition summarize_data :: "'n env \<Rightarrow> 'n IntSettings \<Rightarrow> string \<Rightarrow> 'n obj option \<Rightarrow> 'n obj" where
  "summarize_data E st input options =
     (let data = spread_opt (spread_opt [] (IntSettings.summarizerDefaults st)) options in
      if url_parses E input
      then spread (spread [] data) [(''url'', JStr input)]
      else spread (spread [] data) [(''text'', JStr input)])"

text \<open>The arguments \<open>(url, reqInit)\<close> that \<^verbatim>\<open>summarize\<close> passes to \<^verbatim>\<open>request\<close>.\<close>

definition summarize_req ::
  "'n env \<Rightarrow> 'n IntSettings \<Rightarrow> string \<Rightarrow> 'n obj option \<Rightarrow> string option \<Rightarrow> string \<times> RequestInit" where
  "summarize_req E st input options meth =
     (let data = summarize_data E st input options;
          url = toUrlStr [Some (KAGI_BASE_API_URL E), IntSettings.version st, Some KAGI_SUMMARIZER_ENDPOINT]
      in if meth = Some ''GET''
         then (let queryParams = URLSearchParams (query_entries E data);
                   url = url @ ''?'' @ queryParams;
                   reqInit = \<lparr> method = ''GET'',
                               headers = [(''Authorization'', ''Bot '' @ IntSettings.token st),
                                          (''Accept'', ''application/json'')],
                               body = None \<rparr>
               in (url, reqInit))
         else (let reqInit = \<lparr> method = ''POST'',
                               headers = [(''Authorization'', ''Bot '' @ IntSettings.token st),
                                          (''Accept'', ''application/json''),
                                          (''Content-Type'', ''application/json'')],
                               body = Some (JSON_stringify E data) \<rparr>
               in (url, reqInit)))"

subsection \<open>\<^verbatim>\<open>search\<close>\<close>

definition search_params :: "'n IntSettings \<Rightarrow> string \<Rightarrow> 'n obj option \<Rightarrow> 'n obj" where
  "search_params st query options =
     spread (spread [] [(''q'', JStr query)])
       (spread_opt (spread_opt [] (IntSettings.searchDefaults st)) options)"

definition search_req ::
  "'n env \<Rightarrow> 'n IntSettings \<Rightarrow> string \<Rightarrow> 'n obj option \<Rightarrow> string \<times> RequestInit" where
  "search_req E st query options =
     (let url = toUrlStr [Some (KAGI_BASE_API_URL E), IntSettings.version st, Some KAGI_SEARCH_ENDPOINT];
          params = search_params st query options;
          queryParams = URLSearchParams (query_entries E params);
          url = url @ ''?'' @ queryParams;
          reqInit = \<lparr> method = ''GET'',
                      headers = [(''Authorization'', ''Bot '' @ IntSettings.token st)],
                      body = None \<rparr>
      in (url, reqInit))"

subsection \<open>\<^verbatim>\<open>fastgpt\<close>\<close>

definition fastgpt_data :: "'n IntSettings \<Rightarrow> string \<Rightarrow> 'n obj option \<Rightarrow> 'n obj" where
  "fastgpt_data st query options =
     spread (spread [] [(''query'', JStr query)])
       (spread_opt (spread_opt [] (IntSettings.fastGPTDefaults st)) options)"

definition fastgpt_req ::
  "'n env \<Rightarrow> 'n IntSettings \<Rightarrow> string \<Rightarrow> 'n obj option \<Rightarrow> string \<times> RequestInit" where
  "fastgpt_req E st query options =
     (let data = fastgpt_data st query options;
          url = toUrlStr [Some (KAGI_BASE_API_URL E), IntSettings.version st, Some KAGI_FASTGPT_ENDPOINT];
          reqInit = \<lparr> method = ''POST'',
                      headers = [(''Authorization'', ''Bot '' @ IntSettings.token st),
                                 (''Accept'', ''application/json''),
                                 (''Content-Type'', ''application/json'')],
                      body = Some (JSON_stringify E data) \<rparr>
      in (url, reqInit))"

subsection \<open>\<^verbatim>\<open>enrich\<close>, \<^verbatim>\<open>enrichWeb\<close>, \<^verbatim>\<open>enrichNews\<close>\<close>

definition baseEnrich_req :: "'n env \<Rightarrow> 'n IntSettings \<Rightarrow> string \<Rightarrow> string \<Rightarrow> string \<times> RequestInit" where
  "baseEnrich_req E st u q =
     (let params = [(''q'', JStr q)];
          queryParams = URLSearchParams (query_entries E params);
          reqInit = \<lparr> method = ''GET'',
                      headers = [(''Authorization'', ''Bot '' @ IntSettings.token st),
                                 (''Accept'', ''application/json'')],
                      body = None \<rparr>;
          url = u @ ''?'' @ queryParams
      in (url, reqInit))"

definition enrichWeb_req :: "'n env \<Rightarrow> 'n IntSettings \<Rightarrow> string \<Rightarrow> string \<times> RequestInit" where
  "enrichWeb_req E st query =
     baseEnrich_req E st
       (toUrlStr [Some (KAGI_BASE_API_URL E), IntSettings.version st,
                  Some KAGI_ENRICHMENT_ENDPOINT, Some KAGI_ENRICHMENT_WEB]) query"

definition enrichNews_req :: "'n env \<Rightarrow> 'n IntSettings \<Rightarrow> string \<Rightarrow> string \<times> RequestInit" where
  "enrichNews_req E st query =
     baseEnrich_req E st
       (toUrlStr [Some (KAGI_BASE_API_URL E), IntSettings.version st,
                  Some KAGI_ENRICHMENT_ENDPOINT, Some KAGI_ENRICHMENT_NEWS]) query"

text \<open>\<^verbatim>\<open>type === 'web' ? this.enrichWeb(query) : this.enrichNews(query)\<close>\<close>

definition enrich_req :: "'n env \<Rightarrow> 'n IntSettings \<Rightarrow> string \<Rightarrow> string \<Rightarrow> string \<times> RequestInit" where
  "enrich_req E st query type =
     (if type = ''web'' then enrichWeb_req E st query else enrichNews_req E st query)"

section \<open>The request executor\<close>

text \<open>Modelled from the spec: the response envelope \<^verbatim>\<open>KagiResponse\<close> and the error class
  \<^verbatim>\<open>KagiError\<close> of \<^verbatim>\<open>./response\<close>, whose source file is missing.
  The envelope is a mapping with a data payload or an error descriptor; \<open>error = None\<close>
  is \<^verbatim>\<open>res.kagi.error === undefined\<close>. A \<^verbatim>\<open>KagiError\<close> holds the arguments of its
  constructor: the URL, the request descriptor, the raw response and, when given, the
  error descriptor.\<close>

record ('d, 'e) KagiResponse =
  data :: "'d option"
  error :: "'e option"

text \<open>The transport's response, as far as \<^verbatim>\<open>request\<close> reads it: the status, and the
  outcome of \<^verbatim>\<open>res.json()\<close> (\<open>None\<close> when the body is not JSON and the promise
  rejects).\<close>

record ('d, 'e) Response =
  status :: nat
  json :: "('d, 'e) KagiResponse option"

datatype ('d, 'e) rejection =
    KagiError string RequestInit "('d, 'e) Response" "'e option"
  | FetchRejected
  | JsonRejected

text \<open>\<^verbatim>\<open>request(url, req)\<close>. The transport \<open>fetch\<close> is a parameter; \<open>None\<close> is a promise
  that rejects (no response at all). The result is the settled promise: \<open>Inl\<close> a
  rejection, \<open>Inr\<close> the value.\<close>

definition request ::
  "(string \<Rightarrow> RequestInit \<Rightarrow> ('d, 'e) Response option) \<Rightarrow> string \<Rightarrow> RequestInit
     \<Rightarrow> ('d, 'e) rejection + ('d, 'e) KagiResponse" where
  "request fetch url req =
     (case fetch url req of
        None \<Rightarrow> Inl FetchRejected
      | Some res \<Rightarrow>
          if status res \<noteq> 200 then Inl (KagiError url req res None)
          else (case json res of
                  None \<Rightarrow> Inl JsonRejected
                | Some kagi \<Rightarrow>
                    (case error kagi of
                       Some e \<Rightarrow> Inl (KagiError url req res (Some e))
                     | None \<Rightarrow> Inr kagi)))"

text \<open>The public methods: each passes its URL and request descriptor to \<^verbatim>\<open>request\<close>.\<close>

definition summarize where
  "summarize E fetch st input options meth =
     (case summarize_req E st input options meth of (url, reqInit) \<Rightarrow> request fetch url reqInit)"

definition search where
  "search E fetch st query options =
     (case search_req E st query options of (url, reqInit) \<Rightarrow> request fetch url reqInit)"

definition fastgpt where
  "fastgpt E fetch st query options =
     (case fastgpt_req E st query options of (url, reqInit) \<Rightarrow> request fetch url reqInit)"

definition enrichWeb where
  "enrichWeb E fetch st query =
     (case enrichWeb_req E st query of (url, reqInit) \<Rightarrow> request fetch url reqInit)"

definition enrichNews where
  "enrichNews E fetch st query =
     (case enrichNews_req E st query of (url, reqInit) \<Rightarrow> request fetch url reqInit)"

definition enrich where
  "enrich E fetch st query type =
     (if type = ''web'' then enrichWeb E fetch st query else enrichNews E fetch st query)"

section \<open>Notions used in the statements\<close>

text \<open>The first source, in order of precedence, that defines a value.\<close>

fun first_defined :: "'a option list \<Rightarrow> 'a option" where
  "first_defined [] = None"
| "first_defined (Some v # xs) = Some v"
| "first_defined (None # xs) = first_defined xs"

text \<open>The key that \<^verbatim>\<open>summarize\<close> derives from its input.\<close>

definition input_key :: "'n env \<Rightarrow> string \<Rightarrow> string" where
  "input_key E input = (if url_parses E input then ''url'' else ''text'')"

subsection \<open>An environment, settings and transports for concrete calls\<close>

text \<open>Numbers in the examples are natural numbers below \<open>10\<^sup>2\<^sup>1\<close>; both
  \<^verbatim>\<open>String\<close> and \<^verbatim>\<open>JSON.stringify\<close> print them in decimal.\<close>

function decimal :: "nat \<Rightarrow> string" where
  "decimal n = (if n < 10 then [hex_upper n] else decimal (n div 10) @ [hex_upper (n mod 10)])"
  by pat_completeness auto
termination
  by (relation "measure id") auto

text \<open>The scheme test of the URL parser: a letter, then letters, digits, \<^verbatim>\<open>+\<close>,
  \<^verbatim>\<open>-\<close> or \<^verbatim>\<open>.\<close>, then a colon. It decides the inputs of the examples as
  \<^verbatim>\<open>new URL\<close> does: \<^verbatim>\<open>https://example.com\<close> parses, and \<^verbatim>\<open>hello world\<close>
  and \<^verbatim>\<open>hi\<close>, which have no scheme, do not.\<close>

fun scheme_rest :: "string \<Rightarrow> bool" where
  "scheme_rest [] = False"
| "scheme_rest (c # cs) =
     (if c = CHR '':'' then True
      else if is_alnum c \<or> c \<in> set ''+-.'' then scheme_rest cs
      else False)"

definition has_scheme :: "string \<Rightarrow> bool" where
  "has_scheme s =
     (case s of
        [] \<Rightarrow> False
      | c # cs \<Rightarrow> is_alnum c \<and> (of_char c :: nat) > 57 \<and> scheme_rest cs)"

definition example_env :: "nat env" where
  "example_env =
     \<lparr> KAGI_BASE_API_URL = ''https://kagi.com/api'', url_parses = has_scheme,
       num_String = decimal, num_JSON = decimal \<rparr>"

definition example_settings :: "nat Settings" where
  "example_settings =
     \<lparr> Settings.token = ''tok'', Settings.version = Absent,
       Settings.summarizerDefaults = Some [(''engine'', JStr ''cecil'')],
       Settings.searchDefaults = Some [(''limit'', JNum 5)],
       Settings.fastGPTDefaults = Some [(''cache'', JBool True)] \<rparr>"

text \<open>Settings whose summarizer defaults name the keys that \<^verbatim>\<open>summarize\<close> derives
  from its input.\<close>

definition conflicting_settings :: "nat Settings" where
  "conflicting_settings =
     \<lparr> Settings.token = ''tok'', Settings.version = Present ''v0'',
       Settings.summarizerDefaults = Some [(''text'', JStr ''d''), (''url'', JStr ''https://d.example'')],
       Settings.searchDefaults = None,
       Settings.fastGPTDefaults = None \<rparr>"

text \<open>The example settings with the property \<^verbatim>\<open>version: undefined\<close>.\<close>

definition undefined_version_settings :: "nat Settings" where
  "undefined_version_settings =
     \<lparr> Settings.token = ''tok'', Settings.version = Undefined,
       Settings.summarizerDefaults = Some [(''engine'', JStr ''cecil'')],
       Settings.searchDefaults = Some [(''limit'', JNum 5)],
       Settings.fastGPTDefaults = Some [(''cache'', JBool True)] \<rparr>"

text \<open>A transport that answers every request with the same response.\<close>

definition answering ::
  "('d, 'e) Response \<Rightarrow> string \<Rightarrow> RequestInit \<Rightarrow> ('d, 'e) Response option" where
  "answering res url req = Some res"

section \<open>Properties of object spread\<close>

lemma keys_set_prop:
  "map fst (set_prop k v ps) = (if k \<in> set (map fst ps) then map fst ps else map fst ps @ [k])"
proof (induction ps)
  case Nil
  show ?case by simp
next
  case (Cons p ps)
  obtain k' v' where p: "p = (k', v')" by (cases p)
  show ?case
  proof (cases "k' = k")
    case True
    with p show ?thesis by simp
  next
    case False
    then have "k \<noteq> k'" by blast
    with Cons.IH p False show ?thesis by simp
  qed
qed

lemma distinct_set_prop: "distinct (map fst ps) \<Longrightarrow> distinct (map fst (set_prop k v ps))"
  by (simp only: keys_set_prop split: if_splits) simp

lemma distinct_spread: "distinct (map fst t) \<Longrightarrow> distinct (map fst (spread t s))"
  by (induction t s rule: spread.induct) (simp_all add: distinct_set_prop)

lemma get_prop_None_iff: "get_prop ps k = None \<longleftrightarrow> k \<notin> set (map fst ps)"
  by (induction ps) (auto split: option.splits)

lemma get_prop_set_prop:
  "distinct (map fst ps) \<Longrightarrow> get_prop (set_prop k v ps) x = (if x = k then Some v else get_prop ps x)"
proof (induction ps)
  case Nil
  show ?case by simp
next
  case (Cons p ps)
  obtain k' v' where p: "p = (k', v')" by (cases p)
  from Cons.prems p have fresh: "get_prop ps k' = None" and d: "distinct (map fst ps)"
    by (simp_all add: get_prop_None_iff)
  show ?case
  proof (cases "k' = k")
    case True
    with fresh p show ?thesis by (simp split: option.splits)
  next
    case False
    with Cons.IH [OF d] p show ?thesis by (simp split: option.splits)
  qed
qed

lemma get_prop_spread:
  "distinct (map fst t) \<Longrightarrow>
     get_prop (spread t s) x = (case get_prop s x of Some w \<Rightarrow> Some w | None \<Rightarrow> get_prop t x)"
proof (induction t s rule: spread.induct)
  case (1 target)
  show ?case by simp
next
  case (2 target k v ps)
  from "2.prems" have "distinct (map fst (set_prop k v target))"
    by (rule distinct_set_prop)
  from "2.IH" [OF this] "2.prems" show ?case
    by (simp add: get_prop_set_prop split: option.splits)
qed

lemma get_prop_spread_opt:
  "distinct (map fst t) \<Longrightarrow>
     get_prop (spread_opt t s) x = (case opt_prop s x of Some w \<Rightarrow> Some w | None \<Rightarrow> get_prop t x)"
  by (cases s) (simp_all add: get_prop_spread)

lemma distinct_spread_opt: "distinct (map fst t) \<Longrightarrow> distinct (map fst (spread_opt t s))"
  by (cases s) (simp_all add: distinct_spread)

lemma get_prop_Some_iff:
  "distinct (map fst ps) \<Longrightarrow> get_prop ps k = Some v \<longleftrightarrow> (k, v) \<in> set ps"
proof (induction ps)
  case Nil
  show ?case by simp
next
  case (Cons p ps)
  obtain k' v' where p: "p = (k', v')" by (cases p)
  from Cons.prems p have fresh: "k' \<notin> set (map fst ps)" and d: "distinct (map fst ps)"
    by simp_all
  have notin: "(k', w) \<notin> set ps" for w
    using fresh by (auto simp: image_iff)
  show ?case
  proof (cases "k' = k")
    case True
    from fresh have "get_prop ps k' = None" by (simp only: get_prop_None_iff not_False_eq_True)
    with True notin p show ?thesis by auto
  next
    case False
    with Cons.IH [OF d] p show ?thesis by (auto split: option.splits)
  qed
qed



lemma spread_fresh:
  "distinct (map fst s) \<Longrightarrow> set (map fst t) \<inter> set (map fst s) = {} \<Longrightarrow> spread t s = t @ s"
proof (induction t s rule: spread.induct)
  case (1 target)
  show ?case by simp
next
  case (2 target k v ps)
  from "2.prems" have fresh: "k \<notin> set (map fst target)" by auto
  have app: "set_prop k v target = target @ [(k, v)]"
    using fresh by (induction target) auto
  from "2.prems" have "distinct (map fst ps)"
    and "set (map fst (set_prop k v target)) \<inter> set (map fst ps) = {}"
    by (auto simp: app)
  from "2.IH" [OF this] show ?case by (simp add: app)
qed

lemma spread_Nil: "distinct (map fst s) \<Longrightarrow> spread [] s = s"
  using spread_fresh [of s "[]"] by simp

lemma first_defined_Cons:
  "first_defined (x # xs) = (case x of None \<Rightarrow> first_defined xs | Some v \<Rightarrow> Some v)"
  by (cases x) simp_all

lemma distinct_merged: "distinct (map fst (spread_opt (spread_opt [] d) opts))"
  by (simp add: distinct_spread_opt)

lemma get_prop_merged:
  "get_prop (spread_opt (spread_opt [] d) opts) k = first_defined [opt_prop opts k, opt_prop d k]"
  by (simp add: get_prop_spread_opt distinct_spread_opt first_defined_Cons split: option.splits)

lemma get_prop_search_params:
  "get_prop (search_params st query options) k =
     first_defined [opt_prop options k, opt_prop (IntSettings.searchDefaults st) k,
                    if k = ''q'' then Some (JStr query) else None]"
  by (simp add: search_params_def get_prop_spread get_prop_merged first_defined_Cons
        split: option.splits)

lemma get_prop_fastgpt_data:
  "get_prop (fastgpt_data st query options) k =
     first_defined [opt_prop options k, opt_prop (IntSettings.fastGPTDefaults st) k,
                    if k = ''query'' then Some (JStr query) else None]"
  by (simp add: fastgpt_data_def get_prop_spread get_prop_merged first_defined_Cons
        split: option.splits)

lemma summarize_data_set_prop:
  "summarize_data E st input options =
     set_prop (input_key E input) (JStr input)
       (spread_opt (spread_opt [] (IntSettings.summarizerDefaults st)) options)"
  by (simp add: summarize_data_def input_key_def Let_def spread_Nil distinct_merged)

lemma get_prop_summarize_data:
  "get_prop (summarize_data E st input options) k =
     first_defined [if k = input_key E input then Some (JStr input) else None,
                    opt_prop options k, opt_prop (IntSettings.summarizerDefaults st) k]"
  by (simp add: summarize_data_set_prop get_prop_set_prop distinct_merged get_prop_merged
        first_defined_Cons split: option.splits)

lemma distinct_summarize_data: "distinct (map fst (summarize_data E st input options))"
  by (simp only: summarize_data_set_prop distinct_set_prop distinct_merged)

lemma distinct_search_params: "distinct (map fst (search_params st query options))"
  unfolding search_params_def by (rule distinct_spread) simp

lemma distinct_fastgpt_data: "distinct (map fst (fastgpt_data st query options))"
  unfolding fastgpt_data_def by (rule distinct_spread) simp

section \<open>The enrich dispatch\<close>

lemma enrich_urls_differ: "enrichWeb_req E st query \<noteq> enrichNews_req E st query"
  by (cases "IntSettings.version st")
    (simp_all add: enrichWeb_req_def enrichNews_req_def baseEnrich_req_def toUrlStr_def Let_def
      KAGI_ENRICHMENT_WEB_def KAGI_ENRICHMENT_NEWS_def)

text \<open>
  Claim C6. For every query string, \<^verbatim>\<open>enrich(query, "web")\<close> passes to the request
  executor the same URL and the same request descriptor (method, headers, body) as
  \<^verbatim>\<open>enrichWeb(query)\<close>, and \<^verbatim>\<open>enrich(query, "news")\<close> the same as
  \<^verbatim>\<open>enrichNews(query)\<close>; so the calls settle alike under every transport.
\<close>

theorem enrich_web_news:
  "enrich_req E st query ''web'' = enrichWeb_req E st query
   \<and> enrich_req E st query ''news'' = enrichNews_req E st query
   \<and> enrich E fetch st query ''web'' = enrichWeb E fetch st query
   \<and> enrich E fetch st query ''news'' = enrichNews E fetch st query"
  by (simp add: enrich_req_def enrich_def)

text \<open>
  Claim C10. \<^verbatim>\<open>enrich\<close> goes to \<^verbatim>\<open>enrichWeb\<close> only when the type is exactly
  \<^verbatim>\<open>"web"\<close>; for every other type, \<^verbatim>\<open>"news"\<close> or not, it behaves as
  \<^verbatim>\<open>enrichNews\<close>: the news endpoint is the catch-all branch. The two requests are
  never the same, so the request of \<^verbatim>\<open>enrich\<close> is that of \<^verbatim>\<open>enrichWeb\<close> exactly
  when the type is \<^verbatim>\<open>"web"\<close>.
\<close>

theorem enrich_dispatch:
  "(type = ''web'' \<longrightarrow>
      enrich_req E st query type = enrichWeb_req E st query
      \<and> enrich E fetch st query type = enrichWeb E fetch st query)
   \<and> (type \<noteq> ''web'' \<longrightarrow>
      enrich_req E st query type = enrichNews_req E st query
      \<and> enrich E fetch st query type = enrichNews E fetch st query)
   \<and> (enrich_req E st query type = enrichWeb_req E st query \<longleftrightarrow> type = ''web'')"
  using enrich_urls_differ [of E st query] by (auto simp: enrich_req_def enrich_def)

theorem enrich_dispatch_witness:
  "enrich_req example_env (Kagi example_settings) ''kagi'' ''images''
     = enrichNews_req example_env (Kagi example_settings) ''kagi''
   \<and> fst (enrich_req example_env (Kagi example_settings) ''kagi'' ''images'')
     = ''https://kagi.com/api/v0/enrich/news?q=kagi''
   \<and> enrich_req example_env (Kagi example_settings) ''kagi'' ''web''
     = enrichWeb_req example_env (Kagi example_settings) ''kagi''
   \<and> fst (enrich_req example_env (Kagi example_settings) ''kagi'' ''web'')
     = ''https://kagi.com/api/v0/enrich/web?q=kagi''"
proof -
  have news: "fst (enrichNews_req example_env (Kagi example_settings) ''kagi'')
      = ''https://kagi.com/api/v0/enrich/news?q=kagi''"
    by code_simp
  have web: "fst (enrichWeb_req example_env (Kagi example_settings) ''kagi'')
      = ''https://kagi.com/api/v0/enrich/web?q=kagi''"
    by code_simp
  have ne: "''images'' \<noteq> ''web''" by simp
  let ?fetch = "answering \<lparr>status = 200, json = None :: (nat, string) KagiResponse option\<rparr>"
  from enrich_dispatch [of "''images''" example_env "Kagi example_settings" "''kagi''" ?fetch]
    enrich_dispatch [of "''web''" example_env "Kagi example_settings" "''kagi''" ?fetch] ne news web
  show ?thesis by simp
qed

section \<open>The parameters of \<^verbatim>\<open>summarize\<close>\<close>

text \<open>
  Claim C9. In \<^verbatim>\<open>summarize\<close> the field derived from the input (\<^verbatim>\<open>url\<close> when the
  input parses as a URL, \<^verbatim>\<open>text\<close> otherwise) is written after the defaults and the
  options have been merged: the final parameters are the merged object with that one
  property set. So the field always equals the input, whatever the summarizer defaults
  or the options say about the same key.
\<close>

theorem summarize_input_applied_last:
  "summarize_data E st input options =
     set_prop (input_key E input) (JStr input)
       (spread_opt (spread_opt [] (IntSettings.summarizerDefaults st)) options)
   \<and> get_prop (summarize_data E st input options) (input_key E input) = Some (JStr input)
   \<and> get_prop (summarize_data E st input options)
        (if url_parses E input then ''url'' else ''text'') = Some (JStr input)"
proof -
  have last: "get_prop (summarize_data E st input options) (input_key E input) = Some (JStr input)"
    by (simp add: get_prop_summarize_data)
  then have "get_prop (summarize_data E st input options)
      (if url_parses E input then ''url'' else ''text'') = Some (JStr input)"
    by (simp only: input_key_def)
  with last summarize_data_set_prop [of E st input options] show ?thesis
    by (intro conjI)
qed

section \<open>The request of \<^verbatim>\<open>search\<close>\<close>

text \<open>
  Claim C8. Every \<^verbatim>\<open>search\<close> call passes to the request executor a GET request
  for the search endpoint path, with the parameters merged from \<^verbatim>\<open>{q: query}\<close>, the
  search defaults and the options encoded in the query string; its only header is
  \<^verbatim>\<open>Authorization: Bot <token>\<close> (no \<^verbatim>\<open>Accept\<close>), and it has no body.
\<close>

theorem search_request:
  "search_req E st query options =
     (toUrlStr [Some (KAGI_BASE_API_URL E), IntSettings.version st, Some KAGI_SEARCH_ENDPOINT]
        @ ''?'' @ URLSearchParams (query_entries E (search_params st query options)),
      \<lparr> method = ''GET'',
        headers = [(''Authorization'', ''Bot '' @ IntSettings.token st)],
        body = None \<rparr>)
   \<and> search_params st query options =
       spread [(''q'', JStr query)]
         (spread_opt (spread_opt [] (IntSettings.searchDefaults st)) options)
   \<and> method (snd (search_req E st query options)) = ''GET''
   \<and> map fst (headers (snd (search_req E st query options))) = [''Authorization'']
   \<and> body (snd (search_req E st query options)) = None
   \<and> search E fetch st query options =
       request fetch (fst (search_req E st query options)) (snd (search_req E st query options))"
  by (simp add: search_req_def search_params_def search_def Let_def)

theorem search_request_witness:
  "search_req example_env (Kagi example_settings) ''a b&c'' (Some [(''region'', JNull), (''limit'', JNum 12)]) =
     (''https://kagi.com/api/v0/search?q=a+b%26c&limit=12'',
      \<lparr> method = ''GET'', headers = [(''Authorization'', ''Bot tok'')], body = None \<rparr>)"
proof -
  have "toUrlStr [Some (KAGI_BASE_API_URL example_env), IntSettings.version (Kagi example_settings), Some KAGI_SEARCH_ENDPOINT]
        @ ''?'' @ URLSearchParams (query_entries example_env (search_params (Kagi example_settings) ''a b&c'' (Some [(''region'', JNull), (''limit'', JNum 12)])))
     = ''https://kagi.com/api/v0/search?q=a+b%26c&limit=12''"
    by code_simp
  moreover have "IntSettings.token (Kagi example_settings) = ''tok''"
    by code_simp
  ultimately show ?thesis
    using search_request [of example_env "Kagi example_settings" "''a b&c''"
        "Some [(''region'', JNull), (''limit'', JNum 12)]"
        "answering \<lparr>status = 200, json = None :: (nat, string) KagiResponse option\<rparr>"]
    by simp
qed

section \<open>The outcomes of the request executor\<close>

text \<open>
  Claim C2. For every call of the request executor to which the transport answers: if
  the status is not 200, the call fails with a \<^verbatim>\<open>KagiError\<close> that carries the URL,
  the request descriptor and the raw response and no error descriptor, whatever the body
  is (it is not read); if the status is 200 and the parsed body has an error descriptor,
  the call fails with a \<^verbatim>\<open>KagiError\<close> that carries the URL, the request descriptor,
  the raw response and that descriptor; if the status is 200 and the parsed body has
  none, the parsed body is the result. The call settles as exactly one of a failure and
  a result.
\<close>

theorem request_outcome:
  assumes "fetch url req = Some res"
  shows "(status res \<noteq> 200 \<longrightarrow> request fetch url req = Inl (KagiError url req res None))
    \<and> (status res = 200 \<longrightarrow>
         (\<forall>kagi e. json res = Some kagi \<longrightarrow> error kagi = Some e \<longrightarrow>
            request fetch url req = Inl (KagiError url req res (Some e))))
    \<and> (status res = 200 \<longrightarrow>
         (\<forall>kagi. json res = Some kagi \<longrightarrow> error kagi = None \<longrightarrow>
            request fetch url req = Inr kagi))
    \<and> ((\<exists>r. request fetch url req = Inl r) \<noteq> (\<exists>kagi. request fetch url req = Inr kagi))"
  using assms by (cases "request fetch url req") (auto simp: request_def)

theorem request_outcome_witness:
  "request (answering \<lparr>status = 404, json = None\<rparr>) ''u'' \<lparr>method = ''GET'', headers = [], body = None\<rparr>
     = Inl (KagiError ''u'' \<lparr>method = ''GET'', headers = [], body = None\<rparr>
              \<lparr>status = 404, json = None :: (nat, string) KagiResponse option\<rparr> None)
   \<and> request (answering \<lparr>status = 200, json = Some \<lparr>data = None, error = Some ''bad''\<rparr>\<rparr>)
         ''u'' \<lparr>method = ''GET'', headers = [], body = None\<rparr>
     = Inl (KagiError ''u'' \<lparr>method = ''GET'', headers = [], body = None\<rparr>
              \<lparr>status = 200, json = Some \<lparr>data = None :: nat option, error = Some ''bad''\<rparr>\<rparr> (Some ''bad''))
   \<and> request (answering \<lparr>status = 200, json = Some \<lparr>data = Some (7 :: nat), error = None :: string option\<rparr>\<rparr>)
         ''u'' \<lparr>method = ''GET'', headers = [], body = None\<rparr>
     = Inr \<lparr>data = Some 7, error = None\<rparr>"
proof -
  let ?req = "\<lparr>method = ''GET'', headers = [], body = None\<rparr>"
  let ?r1 = "\<lparr>status = 404, json = None :: (nat, string) KagiResponse option\<rparr>"
  let ?r2 = "\<lparr>status = 200, json = Some \<lparr>data = None :: nat option, error = Some ''bad''\<rparr>\<rparr>"
  let ?r3 = "\<lparr>status = 200, json = Some \<lparr>data = Some (7 :: nat), error = None :: string option\<rparr>\<rparr>"
  have a: "answering r ''u'' ?req = Some r" for r :: "(nat, string) Response"
    by (simp add: answering_def)
  from request_outcome [of "answering ?r1" "''u''" ?req ?r1, OF a]
    request_outcome [of "answering ?r2" "''u''" ?req ?r2, OF a]
    request_outcome [of "answering ?r3" "''u''" ?req ?r3, OF a]
  show ?thesis by simp
qed

section \<open>The request of \<^verbatim>\<open>summarize\<close>\<close>



section \<open>The default version\<close>

text \<open>
  Where the settings object has no \<^verbatim>\<open>version\<close> property, the default of the
  constructor stays, and the URL that each method builds has the segment \<^verbatim>\<open>v0\<close>
  between the base URL and the endpoint path.
\<close>

lemma default_version_segment:
  assumes "Settings.version settings = Absent"
  shows "IntSettings.version (Kagi settings) = Some ''v0''
   \<and> fst (summarize_req E (Kagi settings) input options meth) =
       KAGI_BASE_API_URL E @ ''/v0/summarize''
         @ (if meth = Some ''GET''
            then ''?'' @ URLSearchParams (query_entries E (summarize_data E (Kagi settings) input options))
            else [])
   \<and> fst (search_req E (Kagi settings) query options) =
       KAGI_BASE_API_URL E @ ''/v0/search''
         @ ''?'' @ URLSearchParams (query_entries E (search_params (Kagi settings) query options))
   \<and> fst (fastgpt_req E (Kagi settings) query options) = KAGI_BASE_API_URL E @ ''/v0/fastgpt''
   \<and> fst (enrichWeb_req E (Kagi settings) query) =
       KAGI_BASE_API_URL E @ ''/v0/enrich/web'' @ ''?'' @ URLSearchParams (query_entries E [(''q'', JStr query)])
   \<and> fst (enrichNews_req E (Kagi settings) query) =
       KAGI_BASE_API_URL E @ ''/v0/enrich/news'' @ ''?'' @ URLSearchParams (query_entries E [(''q'', JStr query)])
   \<and> fst (enrich_req E (Kagi settings) query type) =
       KAGI_BASE_API_URL E @ ''/v0/enrich/'' @ (if type = ''web'' then ''web'' else ''news'')
         @ ''?'' @ URLSearchParams (query_entries E [(''q'', JStr query)])"
proof -
  have v: "IntSettings.version (Kagi settings) = Some ''v0''"
    using assms by (simp add: Kagi_def KAGI_API_VERSIONS_v0_def)
  have s: "fst (summarize_req E (Kagi settings) input options meth) =
       KAGI_BASE_API_URL E @ ''/v0/summarize''
         @ (if meth = Some ''GET''
            then ''?'' @ URLSearchParams (query_entries E (summarize_data E (Kagi settings) input options))
            else [])"
    by (simp add: summarize_req_def Let_def v toUrlStr_def KAGI_SUMMARIZER_ENDPOINT_def)
  have q: "fst (search_req E (Kagi settings) query options) =
       KAGI_BASE_API_URL E @ ''/v0/search''
         @ ''?'' @ URLSearchParams (query_entries E (search_params (Kagi settings) query options))"
    by (simp add: search_req_def Let_def v toUrlStr_def KAGI_SEARCH_ENDPOINT_def)
  have f: "fst (fastgpt_req E (Kagi settings) query options) = KAGI_BASE_API_URL E @ ''/v0/fastgpt''"
    by (simp add: fastgpt_req_def Let_def v toUrlStr_def KAGI_FASTGPT_ENDPOINT_def)
  have w: "fst (enrichWeb_req E (Kagi settings) query) =
       KAGI_BASE_API_URL E @ ''/v0/enrich/web'' @ ''?'' @ URLSearchParams (query_entries E [(''q'', JStr query)])"
    by (simp add: enrichWeb_req_def baseEnrich_req_def Let_def v toUrlStr_def
        KAGI_ENRICHMENT_ENDPOINT_def KAGI_ENRICHMENT_WEB_def)
  have n: "fst (enrichNews_req E (Kagi settings) query) =
       KAGI_BASE_API_URL E @ ''/v0/enrich/news'' @ ''?'' @ URLSearchParams (query_entries E [(''q'', JStr query)])"
    by (simp add: enrichNews_req_def baseEnrich_req_def Let_def v toUrlStr_def
        KAGI_ENRICHMENT_ENDPOINT_def KAGI_ENRICHMENT_NEWS_def)
  have e: "fst (enrich_req E (Kagi settings) query type) =
       KAGI_BASE_API_URL E @ ''/v0/enrich/'' @ (if type = ''web'' then ''web'' else ''news'')
         @ ''?'' @ URLSearchParams (query_entries E [(''q'', JStr query)])"
    using w n by (simp add: enrich_req_def)
  from v s q f w n e show ?thesis by (intro conjI)
qed

lemma default_version_segment_example:
  "Settings.version example_settings = Absent
   \<and> fst (summarize_req example_env (Kagi example_settings) ''hi'' None None)
       = ''https://kagi.com/api/v0/summarize''
   \<and> fst (search_req example_env (Kagi example_settings) ''kagi'' None)
       = ''https://kagi.com/api/v0/search?q=kagi&limit=5''
   \<and> fst (fastgpt_req example_env (Kagi example_settings) ''kagi'' None)
       = ''https://kagi.com/api/v0/fastgpt''
   \<and> fst (enrichWeb_req example_env (Kagi example_settings) ''kagi'')
       = ''https://kagi.com/api/v0/enrich/web?q=kagi''
   \<and> fst (enrichNews_req example_env (Kagi example_settings) ''kagi'')
       = ''https://kagi.com/api/v0/enrich/news?q=kagi''"
proof -
  have a: "Settings.version example_settings = Absent"
    by (simp add: example_settings_def)
  have b: "KAGI_BASE_API_URL example_env = ''https://kagi.com/api''"
    by (simp add: example_env_def)
  have q1: "URLSearchParams (query_entries example_env (search_params (Kagi example_settings) ''kagi'' None))
      = ''q=kagi&limit=5''"
    by code_simp
  have q2: "URLSearchParams (query_entries example_env [(''q'', JStr ''kagi'')]) = ''q=kagi''"
    by code_simp
  from default_version_segment [OF a, of example_env "''hi''" None None "''kagi''" "''web''"]
  show ?thesis by (simp add: a b q1 q2)
qed

text \<open>
  Where the property is present with the value \<^verbatim>\<open>undefined\<close>, the spread of the
  constructor copies it over the default, and \<^verbatim>\<open>join\<close> writes it as the empty
  string: the version segment of every URL is empty.
\<close>

lemma undefined_version_segment:
  assumes "Settings.version settings = Undefined"
  shows "IntSettings.version (Kagi settings) = None
   \<and> fst (summarize_req E (Kagi settings) input options None) = KAGI_BASE_API_URL E @ ''//summarize''
   \<and> fst (search_req E (Kagi settings) query options) =
       KAGI_BASE_API_URL E @ ''//search''
         @ ''?'' @ URLSearchParams (query_entries E (search_params (Kagi settings) query options))
   \<and> fst (fastgpt_req E (Kagi settings) query options) = KAGI_BASE_API_URL E @ ''//fastgpt''
   \<and> fst (enrichWeb_req E (Kagi settings) query) =
       KAGI_BASE_API_URL E @ ''//enrich/web'' @ ''?'' @ URLSearchParams (query_entries E [(''q'', JStr query)])
   \<and> fst (enrichNews_req E (Kagi settings) query) =
       KAGI_BASE_API_URL E @ ''//enrich/news'' @ ''?'' @ URLSearchParams (query_entries E [(''q'', JStr query)])"
proof -
  have v: "IntSettings.version (Kagi settings) = None"
    using assms by (simp add: Kagi_def)
  then show ?thesis
    by (simp add: summarize_req_def search_req_def fastgpt_req_def enrichWeb_req_def
        enrichNews_req_def baseEnrich_req_def Let_def toUrlStr_def
        KAGI_SUMMARIZER_ENDPOINT_def KAGI_SEARCH_ENDPOINT_def KAGI_FASTGPT_ENDPOINT_def
        KAGI_ENRICHMENT_ENDPOINT_def KAGI_ENRICHMENT_WEB_def KAGI_ENRICHMENT_NEWS_def)
qed

text \<open>
  Claim C7. For every client constructed from settings that do not specify a version,
  every request URL built by every method contains the default version segment
  \<^verbatim>\<open>v0\<close> between the base URL and the endpoint path. The code does so for settings
  without a \<^verbatim>\<open>version\<close> property. It does not for settings that hold
  \<^verbatim>\<open>version: undefined\<close>, which the optional property \<^verbatim>\<open>version?\<close> admits and
  which specify no version either: the client then keeps an undefined version, although
  \<^verbatim>\<open>IntSettings\<close> declares its \<^verbatim>\<open>version\<close> always defined, and every method
  builds a URL with an empty segment in the place of \<^verbatim>\<open>v0\<close>. The calls below are
  those of a client constructed from \<^verbatim>\<open>{token: "tok", version: undefined, ...}\<close>.
\<close>

theorem undefined_version_drops_default_segment:
  "Settings.version undefined_version_settings = Undefined
   \<and> IntSettings.version (Kagi undefined_version_settings) = None
   \<and> fst (summarize_req example_env (Kagi undefined_version_settings) ''hi'' None None)
       = ''https://kagi.com/api//summarize''
   \<and> fst (summarize_req example_env (Kagi undefined_version_settings) ''hi'' None (Some ''GET''))
       = ''https://kagi.com/api//summarize?engine=cecil&text=hi''
   \<and> fst (search_req example_env (Kagi undefined_version_settings) ''kagi'' None)
       = ''https://kagi.com/api//search?q=kagi&limit=5''
   \<and> fst (fastgpt_req example_env (Kagi undefined_version_settings) ''kagi'' None)
       = ''https://kagi.com/api//fastgpt''
   \<and> fst (enrichWeb_req example_env (Kagi undefined_version_settings) ''kagi'')
       = ''https://kagi.com/api//enrich/web?q=kagi''
   \<and> fst (enrichNews_req example_env (Kagi undefined_version_settings) ''kagi'')
       = ''https://kagi.com/api//enrich/news?q=kagi''"
  by code_simp

section \<open>Null and undefined parameter values\<close>

lemma not_nullish_iff: "not_nullish v \<longleftrightarrow> v \<noteq> JNull \<and> v \<noteq> JUndefined"
  by (cases v) simp_all

lemma SerializeJSONProperty_None_iff: "SerializeJSONProperty E v = None \<longleftrightarrow> v = JUndefined"
  by (cases v) simp_all

lemma query_entries_iff:
  "(k, s) \<in> set (query_entries E ps) \<longleftrightarrow>
     (\<exists>v. (k, v) \<in> set ps \<and> v \<noteq> JNull \<and> v \<noteq> JUndefined \<and> s = String E v)"
  by (auto simp: query_entries_def not_nullish_iff)

lemma json_members_iff:
  "(k, s) \<in> set (json_members E ps) \<longleftrightarrow>
     (\<exists>v. (k, v) \<in> set ps \<and> SerializeJSONProperty E v = Some s)"
  by (induction ps) (auto split: option.splits)

lemma query_entries_keys:
  assumes "distinct (map fst ps)"
  shows "k \<in> fst ` set (query_entries E ps) \<longleftrightarrow>
     (\<exists>v. get_prop ps k = Some v \<and> v \<noteq> JNull \<and> v \<noteq> JUndefined)"
proof -
  have "k \<in> fst ` set (query_entries E ps) \<longleftrightarrow> (\<exists>s. (k, s) \<in> set (query_entries E ps))"
    by force
  also have "\<dots> \<longleftrightarrow> (\<exists>v. (k, v) \<in> set ps \<and> v \<noteq> JNull \<and> v \<noteq> JUndefined)"
    by (auto simp: query_entries_iff)
  finally show ?thesis
    by (simp add: get_prop_Some_iff [OF assms])
qed

lemma json_members_keys:
  assumes "distinct (map fst ps)"
  shows "k \<in> fst ` set (json_members E ps) \<longleftrightarrow>
     (\<exists>v. get_prop ps k = Some v \<and> v \<noteq> JUndefined)"
proof -
  have "k \<in> fst ` set (json_members E ps) \<longleftrightarrow> (\<exists>s. (k, s) \<in> set (json_members E ps))"
    by force
  also have "\<dots> \<longleftrightarrow> (\<exists>v. (k, v) \<in> set ps \<and> SerializeJSONProperty E v \<noteq> None)"
    by (auto simp: json_members_iff)
  finally show ?thesis
    by (simp add: get_prop_Some_iff [OF assms] SerializeJSONProperty_None_iff)
qed

text \<open>
  Claim C5, as amended. Every GET request (\<^verbatim>\<open>summarize\<close> with method
  \<^verbatim>\<open>"GET"\<close>, \<^verbatim>\<open>search\<close>, \<^verbatim>\<open>enrichWeb\<close>, \<^verbatim>\<open>enrichNews\<close>) takes its query
  string from the parameters whose value is neither \<^verbatim>\<open>null\<close> nor \<^verbatim>\<open>undefined\<close>:
  a key is named in the query string exactly when its value in the final parameters is
  neither. In the POST branch of \<^verbatim>\<open>summarize\<close> the client filters nothing: the body
  is the JSON text of the whole merged object. In that text a field whose value is
  \<^verbatim>\<open>null\<close> is kept (as \<^verbatim>\<open>null\<close>), and a field whose value is
  \<^verbatim>\<open>undefined\<close> is left out by the JSON serialization itself.
\<close>

theorem nullish_parameters:
  "fst (summarize_req E st input options (Some ''GET'')) =
     toUrlStr [Some (KAGI_BASE_API_URL E), IntSettings.version st, Some KAGI_SUMMARIZER_ENDPOINT]
       @ ''?'' @ URLSearchParams (query_entries E (summarize_data E st input options))
   \<and> fst (search_req E st query options) =
     toUrlStr [Some (KAGI_BASE_API_URL E), IntSettings.version st, Some KAGI_SEARCH_ENDPOINT]
       @ ''?'' @ URLSearchParams (query_entries E (search_params st query options))
   \<and> fst (enrichWeb_req E st query) =
     toUrlStr [Some (KAGI_BASE_API_URL E), IntSettings.version st,
               Some KAGI_ENRICHMENT_ENDPOINT, Some KAGI_ENRICHMENT_WEB]
       @ ''?'' @ URLSearchParams (query_entries E [(''q'', JStr query)])
   \<and> fst (enrichNews_req E st query) =
     toUrlStr [Some (KAGI_BASE_API_URL E), IntSettings.version st,
               Some KAGI_ENRICHMENT_ENDPOINT, Some KAGI_ENRICHMENT_NEWS]
       @ ''?'' @ URLSearchParams (query_entries E [(''q'', JStr query)])
   \<and> (k \<in> fst ` set (query_entries E (summarize_data E st input options)) \<longleftrightarrow>
        (\<exists>v. get_prop (summarize_data E st input options) k = Some v \<and> v \<noteq> JNull \<and> v \<noteq> JUndefined))
   \<and> (k \<in> fst ` set (query_entries E (search_params st query options)) \<longleftrightarrow>
        (\<exists>v. get_prop (search_params st query options) k = Some v \<and> v \<noteq> JNull \<and> v \<noteq> JUndefined))
   \<and> (k \<in> fst ` set (query_entries E [(''q'', JStr query)]) \<longleftrightarrow> k = ''q'')
   \<and> (meth \<noteq> Some ''GET'' \<longrightarrow>
        body (snd (summarize_req E st input options meth)) =
          Some (JSON_stringify E (summarize_data E st input options)))
   \<and> (k \<in> fst ` set (json_members E (summarize_data E st input options)) \<longleftrightarrow>
        (\<exists>v. get_prop (summarize_data E st input options) k = Some v \<and> v \<noteq> JUndefined))
   \<and> (get_prop (summarize_data E st input options) k = Some JNull \<longrightarrow>
        (k, ''null'') \<in> set (json_members E (summarize_data E st input options)))"
proof -
  have null_kept: "(k, ''null'') \<in> set (json_members E (summarize_data E st input options))"
    if "get_prop (summarize_data E st input options) k = Some JNull"
  proof -
    from that have "(k, JNull) \<in> set (summarize_data E st input options)"
      by (simp add: get_prop_Some_iff [OF distinct_summarize_data])
    then show ?thesis
      by (auto simp: json_members_iff)
  qed
  have urls:
    "fst (summarize_req E st input options (Some ''GET'')) =
       toUrlStr [Some (KAGI_BASE_API_URL E), IntSettings.version st, Some KAGI_SUMMARIZER_ENDPOINT]
         @ ''?'' @ URLSearchParams (query_entries E (summarize_data E st input options))"
    "fst (search_req E st query options) =
       toUrlStr [Some (KAGI_BASE_API_URL E), IntSettings.version st, Some KAGI_SEARCH_ENDPOINT]
         @ ''?'' @ URLSearchParams (query_entries E (search_params st query options))"
    "fst (enrichWeb_req E st query) =
       toUrlStr [Some (KAGI_BASE_API_URL E), IntSettings.version st,
                 Some KAGI_ENRICHMENT_ENDPOINT, Some KAGI_ENRICHMENT_WEB]
         @ ''?'' @ URLSearchParams (query_entries E [(''q'', JStr query)])"
    "fst (enrichNews_req E st query) =
       toUrlStr [Some (KAGI_BASE_API_URL E), IntSettings.version st,
                 Some KAGI_ENRICHMENT_ENDPOINT, Some KAGI_ENRICHMENT_NEWS]
         @ ''?'' @ URLSearchParams (query_entries E [(''q'', JStr query)])"
    by (simp_all add: summarize_req_def search_req_def enrichWeb_req_def enrichNews_req_def
        baseEnrich_req_def Let_def)
  have q: "k \<in> fst ` set (query_entries E [(''q'', JStr query)]) \<longleftrightarrow> k = ''q''"
    by (auto simp: query_entries_def)
  have post: "meth \<noteq> Some ''GET'' \<longrightarrow>
        body (snd (summarize_req E st input options meth)) =
          Some (JSON_stringify E (summarize_data E st input options))"
    by (simp add: summarize_req_def Let_def)
  from urls q post null_kept
    query_entries_keys [OF distinct_summarize_data, of k E E st input options]
    query_entries_keys [OF distinct_search_params, of k E st query options]
    json_members_keys [OF distinct_summarize_data, of k E E st input options]
  show ?thesis by blast
qed



theorem nullish_parameters_witness:
  "(''cache'', ''null'') \<in> set (json_members example_env
       (summarize_data example_env (Kagi example_settings) ''hi'' (Some [(''engine'', JUndefined), (''cache'', JNull)])))
   \<and> ''cache'' \<notin> fst ` set (query_entries example_env
       (summarize_data example_env (Kagi example_settings) ''hi'' (Some [(''engine'', JUndefined), (''cache'', JNull)])))
   \<and> body (snd (summarize_req example_env (Kagi example_settings) ''hi''
        (Some [(''engine'', JUndefined), (''cache'', JNull)]) None)) =
      Some (''{'' @ [CHR 0x22] @ ''cache'' @ [CHR 0x22] @ '':null,''
            @ [CHR 0x22] @ ''text'' @ [CHR 0x22] @ '':'' @ [CHR 0x22] @ ''hi'' @ [CHR 0x22] @ ''}'')
   \<and> fst (summarize_req example_env (Kagi example_settings) ''hi''
        (Some [(''engine'', JUndefined), (''cache'', JNull)]) (Some ''GET'')) =
      ''https://kagi.com/api/v0/summarize?text=hi''"
proof -
  let ?st = "Kagi example_settings"
  let ?o = "Some [(''engine'', JUndefined), (''cache'', JNull)]"
  have d: "summarize_data example_env ?st ''hi'' ?o =
      [(''engine'', JUndefined), (''cache'', JNull), (''text'', JStr ''hi'')]"
    by code_simp
  have g: "get_prop [(''engine'', JUndefined), (''cache'', JNull), (''text'', JStr ''hi'')] ''cache''
      = Some (JNull :: nat jsval)"
    by simp
  have b: "JSON_stringify example_env [(''engine'', JUndefined), (''cache'', JNull), (''text'', JStr ''hi'')]
      = ''{'' @ [CHR 0x22] @ ''cache'' @ [CHR 0x22] @ '':null,''
            @ [CHR 0x22] @ ''text'' @ [CHR 0x22] @ '':'' @ [CHR 0x22] @ ''hi'' @ [CHR 0x22] @ ''}''"
    by code_simp
  have u: "toUrlStr [Some (KAGI_BASE_API_URL example_env), IntSettings.version ?st, Some KAGI_SUMMARIZER_ENDPOINT]
        @ ''?'' @ URLSearchParams (query_entries example_env
            [(''engine'', JUndefined), (''cache'', JNull), (''text'', JStr ''hi'')])
      = ''https://kagi.com/api/v0/summarize?text=hi''"
    by code_simp
  have m: "(None :: string option) \<noteq> Some ''GET''" by simp
  note t = nullish_parameters [of example_env ?st "''hi''" ?o "''q''" "''cache''" None, unfolded d]
  from t m have body: "body (snd (summarize_req example_env ?st ''hi'' ?o None)) =
      Some (JSON_stringify example_env [(''engine'', JUndefined), (''cache'', JNull), (''text'', JStr ''hi'')])"
    by blast
  from t have url: "fst (summarize_req example_env ?st ''hi'' ?o (Some ''GET'')) =
      toUrlStr [Some (KAGI_BASE_API_URL example_env), IntSettings.version ?st, Some KAGI_SUMMARIZER_ENDPOINT]
        @ ''?'' @ URLSearchParams (query_entries example_env
            [(''engine'', JUndefined), (''cache'', JNull), (''text'', JStr ''hi'')])"
    by blast
  from t g have kept: "(''cache'', ''null'') \<in> set (json_members example_env
      [(''engine'', JUndefined), (''cache'', JNull), (''text'', JStr ''hi'')])"
    by blast
  from t g have dropped: "''cache'' \<notin> fst ` set (query_entries example_env
      [(''engine'', JUndefined), (''cache'', JNull), (''text'', JStr ''hi'')])"
    by auto
  from body url kept dropped show ?thesis
    unfolding d b u by (intro conjI)
qed

text \<open>
  Claim C5 as it was stated says that fields with the value \<^verbatim>\<open>undefined\<close> are not
  filtered from the JSON body. With the option \<^verbatim>\<open>{engine: undefined}\<close> the final
  parameters hold \<^verbatim>\<open>engine\<close> with the value \<^verbatim>\<open>undefined\<close>, and the body of
  the POST request is \<^verbatim>\<open>{"text":"hi"}\<close>.
\<close>

theorem undefined_field_absent_from_json_body:
  "get_prop (summarize_data example_env (Kagi example_settings) ''hi'' (Some [(''engine'', JUndefined)]))
       ''engine'' = Some JUndefined
   \<and> body (snd (summarize_req example_env (Kagi example_settings) ''hi''
        (Some [(''engine'', JUndefined)]) None)) =
      Some (''{'' @ [CHR 0x22] @ ''text'' @ [CHR 0x22] @ '':'' @ [CHR 0x22] @ ''hi'' @ [CHR 0x22] @ ''}'')"
  by code_simp

section \<open>The field that \<^verbatim>\<open>summarize\<close> derives from its input\<close>

text \<open>
  Claim C3, as amended. For every \<^verbatim>\<open>summarize\<close> call: if the input parses as an
  absolute URL, the final parameters have a \<^verbatim>\<open>url\<close> field equal to the input, and
  \<^verbatim>\<open>summarize\<close> sets no \<^verbatim>\<open>text\<close> field: the parameters have a \<^verbatim>\<open>text\<close>
  field only when the options or the summarizer defaults supply one (the options first),
  and none when neither does. If the parse fails, the same holds with \<^verbatim>\<open>text\<close> and
  \<^verbatim>\<open>url\<close> exchanged.
\<close>

theorem summarize_url_or_text:
  "(url_parses E input \<longrightarrow>
      get_prop (summarize_data E st input options) ''url'' = Some (JStr input)
      \<and> get_prop (summarize_data E st input options) ''text'' =
          first_defined [opt_prop options ''text'', opt_prop (IntSettings.summarizerDefaults st) ''text''])
   \<and> (\<not> url_parses E input \<longrightarrow>
      get_prop (summarize_data E st input options) ''text'' = Some (JStr input)
      \<and> get_prop (summarize_data E st input options) ''url'' =
          first_defined [opt_prop options ''url'', opt_prop (IntSettings.summarizerDefaults st) ''url''])
   \<and> (url_parses E input \<and> opt_prop options ''text'' = None
        \<and> opt_prop (IntSettings.summarizerDefaults st) ''text'' = None \<longrightarrow>
      get_prop (summarize_data E st input options) ''text'' = None)
   \<and> (\<not> url_parses E input \<and> opt_prop options ''url'' = None
        \<and> opt_prop (IntSettings.summarizerDefaults st) ''url'' = None \<longrightarrow>
      get_prop (summarize_data E st input options) ''url'' = None)"
  by (simp add: get_prop_summarize_data input_key_def)

theorem summarize_url_or_text_witness:
  "url_parses example_env ''https://example.com''
   \<and> get_prop (summarize_data example_env (Kagi example_settings) ''https://example.com'' None) ''url''
       = Some (JStr ''https://example.com'')
   \<and> get_prop (summarize_data example_env (Kagi example_settings) ''https://example.com'' None) ''text''
       = None
   \<and> \<not> url_parses example_env ''hello world''
   \<and> get_prop (summarize_data example_env (Kagi example_settings) ''hello world'' None) ''text''
       = Some (JStr ''hello world'')
   \<and> get_prop (summarize_data example_env (Kagi example_settings) ''hello world'' None) ''url''
       = None"
proof -
  have p: "url_parses example_env ''https://example.com''"
    by code_simp
  have n: "\<not> url_parses example_env ''hello world''"
    by code_simp
  have d: "opt_prop (IntSettings.summarizerDefaults (Kagi example_settings)) ''text'' = None"
    "opt_prop (IntSettings.summarizerDefaults (Kagi example_settings)) ''url'' = None"
    by code_simp+
  from summarize_url_or_text [of example_env "''https://example.com''" "Kagi example_settings" None]
    summarize_url_or_text [of example_env "''hello world''" "Kagi example_settings" None]
  show ?thesis by (simp add: p n d)
qed

text \<open>
  Claim C3 as it was stated says that the parameters of a call whose input is a URL have
  no \<^verbatim>\<open>text\<close> field. With the option \<^verbatim>\<open>{text: "o"}\<close> they have both fields.
\<close>

theorem url_input_with_text_option:
  "url_parses example_env ''https://example.com''
   \<and> summarize_data example_env (Kagi example_settings) ''https://example.com''
        (Some [(''text'', JStr ''o'')]) =
      [(''engine'', JStr ''cecil''), (''text'', JStr ''o''), (''url'', JStr ''https://example.com'')]
   \<and> get_prop (summarize_data example_env (Kagi example_settings) ''https://example.com''
        (Some [(''text'', JStr ''o'')])) ''text'' = Some (JStr ''o'')"
  by code_simp

section \<open>Merge precedence\<close>

text \<open>
  Claim C1, as amended. For \<^verbatim>\<open>search\<close> and \<^verbatim>\<open>fastgpt\<close> the final request
  parameters are the shallow merge with the precedence built-in required field
  (\<^verbatim>\<open>q\<close>, \<^verbatim>\<open>query\<close>) below the endpoint defaults of the settings below the
  call-time options. For \<^verbatim>\<open>summarize\<close> the precedence is endpoint defaults below
  call-time options below the field derived from the input (\<^verbatim>\<open>url\<close> or
  \<^verbatim>\<open>text\<close>), which is written last. In all three methods, whenever a key is in the
  call-time options (and whether or not the defaults have it too), the option value is
  the value of that key in the final request parameters, except for the input-derived
  key of \<^verbatim>\<open>summarize\<close>.
\<close>

theorem merge_precedence:
  "get_prop (search_params st query options) k =
     first_defined [opt_prop options k, opt_prop (IntSettings.searchDefaults st) k,
                    if k = ''q'' then Some (JStr query) else None]
   \<and> get_prop (fastgpt_data st query options) k =
     first_defined [opt_prop options k, opt_prop (IntSettings.fastGPTDefaults st) k,
                    if k = ''query'' then Some (JStr query) else None]
   \<and> get_prop (summarize_data E st input options) k =
     first_defined [if k = input_key E input then Some (JStr input) else None,
                    opt_prop options k, opt_prop (IntSettings.summarizerDefaults st) k]
   \<and> (opt_prop options k = Some v \<longrightarrow>
        get_prop (search_params st query options) k = Some v
        \<and> get_prop (fastgpt_data st query options) k = Some v
        \<and> (k \<noteq> input_key E input \<longrightarrow> get_prop (summarize_data E st input options) k = Some v))"
  by (simp add: get_prop_search_params get_prop_fastgpt_data get_prop_summarize_data)

theorem merge_precedence_witness:
  "get_prop (search_params (Kagi example_settings) ''kagi'' (Some [(''limit'', JNum 12)])) ''limit''
      = Some (JNum 12)
   \<and> get_prop (fastgpt_data (Kagi example_settings) ''kagi'' (Some [(''limit'', JNum 12)])) ''limit''
      = Some (JNum 12)
   \<and> get_prop (summarize_data example_env (Kagi example_settings) ''hi'' (Some [(''limit'', JNum 12)])) ''limit''
      = Some (JNum 12)
   \<and> get_prop (search_params (Kagi example_settings) ''kagi'' (Some [(''limit'', JNum 12)])) ''q''
      = Some (JStr ''kagi'')"
proof -
  have o: "opt_prop (Some [(''limit'', JNum (12 :: nat))]) ''limit'' = Some (JNum 12)"
    "opt_prop (Some [(''limit'', JNum (12 :: nat))]) ''q'' = None"
    by simp_all
  have k: "''limit'' \<noteq> input_key example_env ''hi''"
    by code_simp
  have d: "opt_prop (IntSettings.searchDefaults (Kagi example_settings)) ''q'' = None"
    by code_simp
  from merge_precedence [of "Kagi example_settings" "''kagi''" "Some [(''limit'', JNum 12)]" "''limit''"
      example_env "''hi''" "JNum 12"]
    merge_precedence [of "Kagi example_settings" "''kagi''" "Some [(''limit'', JNum 12)]" "''q''"
      example_env "''hi''" "JNum 12"]
  show ?thesis by (simp add: o k d)
qed

text \<open>
  Claim C1 as it was stated puts the built-in field of \<^verbatim>\<open>summarize\<close> below the
  defaults and the options. With \<^verbatim>\<open>text\<close> in both the summarizer defaults and the
  options and an input that is not a URL, the final \<^verbatim>\<open>text\<close> is the input and not
  the option value.
\<close>

theorem summarize_input_beats_option:
  "opt_prop (IntSettings.summarizerDefaults (Kagi conflicting_settings)) ''text'' = Some (JStr ''d'')
   \<and> opt_prop (Some [(''text'', JStr ''o'')]) ''text'' = Some (JStr ''o'' :: nat jsval)
   \<and> summarize_data example_env (Kagi conflicting_settings) ''hello world'' (Some [(''text'', JStr ''o'')]) =
      [(''text'', JStr ''hello world''), (''url'', JStr ''https://d.example'')]
   \<and> get_prop (summarize_data example_env (Kagi conflicting_settings) ''hello world''
        (Some [(''text'', JStr ''o'')])) ''text'' = Some (JStr ''hello world'')"
  by code_simp

end
